theory Spec2Isabelle
  imports Complex_Main "HOL-Library.Word"
begin

section \<open>The PDF signer component (App.jsx)\<close>

text \<open>
  The component \<^verbatim>\<open>App\<close> keeps four pieces of React state (\<^verbatim>\<open>pdfFile\<close>,
  \<^verbatim>\<open>fileName\<close>, \<^verbatim>\<open>signedPdfUrl\<close>, \<^verbatim>\<open>errorMsg\<close>) and a reference to the drawing
  surface (\<^verbatim>\<open>sigCanvas\<close>). Its three handlers are \<^verbatim>\<open>handleFileChange\<close>,
  \<^verbatim>\<open>clearSignature\<close> and \<^verbatim>\<open>processPdf\<close>. Both copies of the component in the
  repository have the same handlers, statement for statement.

  A handler reads the state of the render it was created in and calls state setters. Every
  setter call of the source passes a value, never an updater function, so a handler is
  modelled as the list of setter calls it makes, in order, and the new state is obtained by
  applying them.

  JavaScript numbers are IEEE doubles: the placement arithmetic of the source rounds after
  each operation, and so does the model.
\<close>

subsection \<open>Component state\<close>

type_synonym bytes = "8 word list"

record app_state =
  pdfFile :: "bytes option"
  fileName :: string
  signedPdfUrl :: "string option"
  errorMsg :: string

text \<open>The values passed to \<^verbatim>\<open>useState\<close>.\<close>

definition initial_state :: app_state where
  "initial_state =
     \<lparr>pdfFile = None, fileName = '''', signedPdfUrl = None, errorMsg = ''''\<rparr>"

datatype setter =
    SetPdfFile "bytes option"
  | SetFileName string
  | SetSignedPdfUrl "string option"
  | SetErrorMsg string

fun apply_setter :: "app_state \<Rightarrow> setter \<Rightarrow> app_state" where
  "apply_setter s (SetPdfFile v) = s\<lparr>pdfFile := v\<rparr>"
| "apply_setter s (SetFileName v) = s\<lparr>fileName := v\<rparr>"
| "apply_setter s (SetSignedPdfUrl v) = s\<lparr>signedPdfUrl := v\<rparr>"
| "apply_setter s (SetErrorMsg v) = s\<lparr>errorMsg := v\<rparr>"

definition apply_setters :: "app_state \<Rightarrow> setter list \<Rightarrow> app_state" where
  "apply_setters s us = foldl apply_setter s us"

text \<open>
  What the markup shows: \<^verbatim>\<open>{errorMsg && ...}\<close> and \<^verbatim>\<open>{signedPdfUrl && ...}\<close>.
  A string is truthy when it is not empty, \<^verbatim>\<open>null\<close> is falsy.
\<close>

definition shows_error :: "app_state \<Rightarrow> bool" where
  "shows_error s = (errorMsg s \<noteq> '''')"

definition shows_download :: "app_state \<Rightarrow> bool" where
  "shows_download s = (case signedPdfUrl s of None \<Rightarrow> False | Some u \<Rightarrow> u \<noteq> '''')"

subsection \<open>The file input\<close>

text \<open>
  A browser \<^verbatim>\<open>File\<close>: its reported MIME type, its name, and the bytes that
  \<^verbatim>\<open>FileReader.readAsArrayBuffer\<close> delivers to \<^verbatim>\<open>onload\<close>.
\<close>

record file_obj =
  file_type :: string
  file_name :: string
  file_bytes :: bytes

text \<open>
  \<^verbatim>\<open>handleFileChange\<close> receives \<^verbatim>\<open>e.target.files[0]\<close>, which is \<^verbatim>\<open>undefined\<close>
  (here \<open>None\<close>) when the list of files is empty. It returns the file whose read it
  started, if any, and the setter calls it made itself. The callback \<^verbatim>\<open>reader.onload\<close>
  runs later, as an event of its own.
\<close>

definition handleFileChange :: "file_obj option \<Rightarrow> file_obj option \<times> setter list" where
  "handleFileChange f =
     (case f of
        None \<Rightarrow> (None, [SetErrorMsg ''Please upload a valid PDF file.''])
      | Some file \<Rightarrow>
          if file_type file = ''application/pdf'' then (Some file, [])
          else (None, [SetErrorMsg ''Please upload a valid PDF file.'']))"

definition onload :: "file_obj \<Rightarrow> bytes \<Rightarrow> setter list" where
  "onload file result =
     [SetPdfFile (Some result), SetFileName (file_name file),
      SetSignedPdfUrl None, SetErrorMsg '''']"

subsection \<open>The drawing surface\<close>

text \<open>
  Modelled from the spec: the drawing surface (the \<^verbatim>\<open>SignatureCanvas\<close> component that
  \<^verbatim>\<open>sigCanvas\<close> refers to) is a library outside the repository's sources. The spec describes it
  as the mutable state of the drawn strokes, with the operations draw, clear and isEmpty:
  clear removes all strokes, and isEmpty holds when no ink is drawn.
\<close>

type_synonym stroke = "(int \<times> int) list"

type_synonym sig_pad = "stroke list"

definition pad_draw :: "stroke \<Rightarrow> sig_pad \<Rightarrow> sig_pad" where
  "pad_draw k c = c @ [k]"

definition pad_clear :: "sig_pad \<Rightarrow> sig_pad" where
  "pad_clear c = []"

definition isEmpty :: "sig_pad \<Rightarrow> bool" where
  "isEmpty c = List.null c"

text \<open>\<^verbatim>\<open>clearSignature\<close> of the source: \<^verbatim>\<open>sigCanvas.current.clear()\<close>.\<close>

definition clearSignature :: "sig_pad \<Rightarrow> sig_pad" where
  "clearSignature c = pad_clear c"

subsection \<open>JavaScript numbers\<close>

text \<open>
  A JavaScript number is an IEEE 754 double. A finite double is \<open>Fin m e\<close>, the value
  \<open>m * 2 ^ e\<close>, kept with \<open>m\<close> odd, or as \<open>Fin 0 0\<close> for zero, so that two finite numbers are
  equal exactly when their values are. The two zeros of the standard are one value here: the
  sign of a zero is not observed by the component.
\<close>

datatype js_number = Fin int int | PosInf | NegInf | NaN

definition dy :: "int \<Rightarrow> int \<Rightarrow> real" where
  "dy m e = (if 0 \<le> e then of_int m * 2 ^ nat e else of_int m / 2 ^ nat (- e))"

fun js_value :: "js_number \<Rightarrow> real option" where
  "js_value (Fin m e) = Some (dy m e)"
| "js_value PosInf = None"
| "js_value NegInf = None"
| "js_value NaN = None"

text \<open>The number of binary digits of a positive integer.\<close>

function bits :: "int \<Rightarrow> int" where
  "bits n = (if n \<le> 0 then 0 else 1 + bits (n div 2))"
  by pat_completeness auto
termination
  by (relation "measure nat") auto

declare bits.simps [simp del]

text \<open>The odd mantissa and the exponent of \<open>n * 2 ^ e\<close>, for \<open>n\<close> not negative.\<close>

function strip :: "int \<Rightarrow> int \<Rightarrow> int \<times> int" where
  "strip n e = (if n \<le> 0 then (0, 0) else if even n then strip (n div 2) (e + 1) else (n, e))"
  by pat_completeness auto
termination
  by (relation "measure (\<lambda>(n, e). nat n)") auto

declare strip.simps [simp del]

text \<open>
  The result of an operation whose exact value is \<open>m * 2 ^ e\<close>: the nearest double, the one
  with the even mantissa when two are equally near. A double has 53 binary digits and its
  last digit is worth at least \<open>2 ^ - 1074\<close>; a magnitude of \<open>2 ^ 1024\<close> or more after
  rounding is infinite.
\<close>

definition finite_or_inf :: "bool \<Rightarrow> int \<Rightarrow> int \<Rightarrow> js_number" where
  "finite_or_inf neg a q =
     (if 1024 < q + bits a then (if neg then NegInf else PosInf)
      else case strip a q of (n, e) \<Rightarrow> Fin (if neg then - n else n) e)"

definition round_double :: "int \<Rightarrow> int \<Rightarrow> js_number" where
  "round_double m e =
     (case strip \<bar>m\<bar> e of (n, e') \<Rightarrow>
        let q = max (e' + bits n - 53) (- 1074) in
        if q \<le> e' then finite_or_inf (m < 0) n e'
        else
          let d = 2 ^ nat (q - e'); t = n div d; r = n mod d;
              a = (if d < 2 * r \<or> (2 * r = d \<and> odd t) then t + 1 else t)
          in finite_or_inf (m < 0) a q)"

text \<open>The operators \<^verbatim>\<open>-\<close> and \<^verbatim>\<open>*\<close> on numbers.\<close>

fun js_sub :: "js_number \<Rightarrow> js_number \<Rightarrow> js_number" where
  "js_sub NaN _ = NaN"
| "js_sub _ NaN = NaN"
| "js_sub PosInf PosInf = NaN"
| "js_sub NegInf NegInf = NaN"
| "js_sub PosInf _ = PosInf"
| "js_sub NegInf _ = NegInf"
| "js_sub _ PosInf = NegInf"
| "js_sub _ NegInf = PosInf"
| "js_sub (Fin m1 e1) (Fin m2 e2) =
     (let e = min e1 e2
      in round_double (m1 * 2 ^ nat (e1 - e) - m2 * 2 ^ nat (e2 - e)) e)"

declare js_sub.simps [simp del]

fun js_mul :: "js_number \<Rightarrow> js_number \<Rightarrow> js_number" where
  "js_mul NaN _ = NaN"
| "js_mul _ NaN = NaN"
| "js_mul (Fin m1 e1) (Fin m2 e2) = round_double (m1 * m2) (e1 + e2)"
| "js_mul (Fin m e) PosInf = (if m = 0 then NaN else if m < 0 then NegInf else PosInf)"
| "js_mul (Fin m e) NegInf = (if m = 0 then NaN else if m < 0 then PosInf else NegInf)"
| "js_mul PosInf (Fin m e) = (if m = 0 then NaN else if m < 0 then NegInf else PosInf)"
| "js_mul NegInf (Fin m e) = (if m = 0 then NaN else if m < 0 then PosInf else NegInf)"
| "js_mul PosInf PosInf = PosInf"
| "js_mul NegInf NegInf = PosInf"
| "js_mul PosInf NegInf = NegInf"
| "js_mul NegInf PosInf = NegInf"

declare js_mul.simps [simp del]

text \<open>The number that an integer literal or an integer held by a library denotes.\<close>

definition js_of_int :: "int \<Rightarrow> js_number" where
  "js_of_int n = round_double n 0"

text \<open>The literal \<^verbatim>\<open>0.5\<close>.\<close>

definition half :: js_number where
  "half = Fin 1 (- 1)"

subsection \<open>The document object\<close>

text \<open>
  The part of the document library's object model that \<^verbatim>\<open>processPdf\<close> uses: a document
  has pages and embedded images; a page has a size and the images drawn on it; an embedded
  image has the pixel dimensions of its raster, which the library holds as numbers.
\<close>

record image =
  img_width :: nat
  img_height :: nat

record dims =
  dims_width :: js_number
  dims_height :: js_number

record draw_op =
  op_image :: image
  op_x :: js_number
  op_y :: js_number
  op_width :: js_number
  op_height :: js_number

record page =
  page_width :: js_number
  page_height :: js_number
  page_content :: "draw_op list"

record pdf_doc =
  doc_pages :: "page list"
  doc_images :: "image list"

text \<open>
  \<^verbatim>\<open>signatureImage.scale(factor)\<close>: the width and the height of the image, each times the
  factor.
\<close>

definition scale :: "image \<Rightarrow> js_number \<Rightarrow> dims" where
  "scale img factor =
     \<lparr>dims_width = js_mul (js_of_int (int (img_width img))) factor,
      dims_height = js_mul (js_of_int (int (img_height img))) factor\<rparr>"

text \<open>\<^verbatim>\<open>page.getSize()\<close>.\<close>

definition getSize :: "page \<Rightarrow> dims" where
  "getSize p = \<lparr>dims_width = page_width p, dims_height = page_height p\<rparr>"

text \<open>\<^verbatim>\<open>page.drawImage(image, options)\<close> adds one drawing operation to the page.\<close>

definition drawImage :: "page \<Rightarrow> draw_op \<Rightarrow> page" where
  "drawImage p d = p\<lparr>page_content := page_content p @ [d]\<rparr>"

text \<open>
  The operations of the libraries and of the browser whose results depend on the bytes they
  are given. Each may throw, which is \<open>None\<close>:
  \<^item> \<^verbatim>\<open>PDFDocument.load(pdfFile)\<close>;
  \<^item> \<^verbatim>\<open>getTrimmedCanvas().toDataURL('image/png')\<close> followed by \<^verbatim>\<open>fetch\<close> and
    \<^verbatim>\<open>arrayBuffer()\<close>, which give the bytes of the trimmed signature raster;
  \<^item> the decoding of the raster inside \<^verbatim>\<open>pdfDoc.embedPng\<close>;
  \<^item> \<^verbatim>\<open>pdfDoc.save()\<close>;
  \<^item> \<^verbatim>\<open>new Blob\<close> followed by \<^verbatim>\<open>URL.createObjectURL\<close>.
\<close>

record env =
  PDFDocument_load :: "bytes \<Rightarrow> pdf_doc option"
  getTrimmedCanvas_png :: "sig_pad \<Rightarrow> bytes option"
  decodePng :: "bytes \<Rightarrow> image option"
  pdfDoc_save :: "pdf_doc \<Rightarrow> bytes option"
  URL_createObjectURL :: "bytes \<Rightarrow> string option"

text \<open>\<^verbatim>\<open>pdfDoc.embedPng(bytes)\<close> registers the decoded image with the document.\<close>

definition embedPng :: "env \<Rightarrow> pdf_doc \<Rightarrow> bytes \<Rightarrow> (pdf_doc \<times> image) option" where
  "embedPng E d b =
     (case decodePng E b of
        None \<Rightarrow> None
      | Some img \<Rightarrow> Some (d\<lparr>doc_images := doc_images d @ [img]\<rparr>, img))"

text \<open>
  \<^verbatim>\<open>pages[0]\<close> is \<^verbatim>\<open>undefined\<close> when the document has no page, and the call
  \<^verbatim>\<open>firstPage.getSize()\<close> that follows then throws a TypeError.
\<close>

definition firstPage_of :: "page list \<Rightarrow> (page \<times> page list) option" where
  "firstPage_of ps = (case ps of [] \<Rightarrow> None | p # rest \<Rightarrow> Some (p, rest))"

subsection \<open>Signing\<close>

text \<open>
  The body of the \<^verbatim>\<open>try\<close> block is a sequence of calls, each of which may throw.
  What is thrown is kept as the statement that threw it. An attempt is the list of the calls
  that were made, in order, and either what was thrown or the value reached.
\<close>

datatype failure =
    ParseFailed
  | ExportFailed
  | EmbedFailed
  | NoFirstPage
  | SerializeFailed
  | ObjectUrlFailed

datatype lib_call =
    Load bytes
  | ExportPng
  | EmbedPng bytes
  | GetPages
  | DrawImage draw_op
  | Save pdf_doc
  | CreateObjectURL bytes
  | ConsoleError failure

type_synonym 'a attempt = "lib_call list \<times> (failure + 'a)"

definition invoke :: "lib_call \<Rightarrow> failure \<Rightarrow> 'a option \<Rightarrow> 'a attempt" where
  "invoke c e r = ([c], case r of None \<Rightarrow> Inl e | Some x \<Rightarrow> Inr x)"

definition andThen :: "'a attempt \<Rightarrow> ('a \<Rightarrow> 'b attempt) \<Rightarrow> 'b attempt" where
  "andThen m f =
     (case m of
        (l, Inl e) \<Rightarrow> (l, Inl e)
      | (l, Inr x) \<Rightarrow> (case f x of (l', r) \<Rightarrow> (l @ l', r)))"

text \<open>The options object passed to \<^verbatim>\<open>firstPage.drawImage\<close>.\<close>

definition drawOptions :: "image \<Rightarrow> dims \<Rightarrow> dims \<Rightarrow> draw_op" where
  "drawOptions signatureImage pageSize sigDims =
     \<lparr>op_image = signatureImage,
      op_x = js_sub (js_sub (dims_width pageSize) (dims_width sigDims)) (js_of_int 20),
      op_y = js_of_int 20,
      op_width = dims_width sigDims,
      op_height = dims_height sigDims\<rparr>"

text \<open>
  The body of the \<^verbatim>\<open>try\<close> block of \<^verbatim>\<open>processPdf\<close>, up to the object URL. The
  drawing itself does not depend on the environment and is a step that always returns.
\<close>

definition compose :: "env \<Rightarrow> bytes \<Rightarrow> sig_pad \<Rightarrow> string attempt" where
  "compose E pdf c =
     andThen (invoke (Load pdf) ParseFailed (PDFDocument_load E pdf)) (\<lambda>pdfDoc.
     andThen (invoke ExportPng ExportFailed (getTrimmedCanvas_png E c)) (\<lambda>signatureImageBytes.
     andThen (invoke (EmbedPng signatureImageBytes) EmbedFailed
                (embedPng E pdfDoc signatureImageBytes)) (\<lambda>(pdfDoc1, signatureImage).
     andThen (invoke GetPages NoFirstPage (firstPage_of (doc_pages pdfDoc1)))
       (\<lambda>(firstPage, others).
     andThen
       (let sigDims = scale signatureImage half;
            opts = drawOptions signatureImage (getSize firstPage) sigDims
        in ([DrawImage opts],
            Inr (pdfDoc1\<lparr>doc_pages := drawImage firstPage opts # others\<rparr>))) (\<lambda>pdfDoc2.
     andThen (invoke (Save pdfDoc2) SerializeFailed (pdfDoc_save E pdfDoc2)) (\<lambda>pdfBytes.
     invoke (CreateObjectURL pdfBytes) ObjectUrlFailed
       (URL_createObjectURL E pdfBytes)))))))"

text \<open>
  The outcome of one call of \<^verbatim>\<open>processPdf\<close>: the library calls it made and the setter
  calls it made. \<^verbatim>\<open>!pdfFile\<close> holds exactly when \<^verbatim>\<open>pdfFile\<close> is \<^verbatim>\<open>null\<close>: an
  ArrayBuffer is truthy whatever its length.
\<close>

record outcome =
  calls :: "lib_call list"
  updates :: "setter list"

definition processPdf :: "env \<Rightarrow> app_state \<Rightarrow> sig_pad \<Rightarrow> outcome" where
  "processPdf E s c =
     (case pdfFile s of
        None \<Rightarrow> \<lparr>calls = [], updates = [SetErrorMsg ''Please upload a PDF first.'']\<rparr>
      | Some pdf \<Rightarrow>
          if isEmpty c
          then \<lparr>calls = [], updates = [SetErrorMsg ''Please draw a signature first.'']\<rparr>
          else
            (case compose E pdf c of
               (l, Inr url) \<Rightarrow>
                 \<lparr>calls = l, updates = [SetSignedPdfUrl (Some url), SetErrorMsg '''']\<rparr>
             | (l, Inl err) \<Rightarrow>
                 \<lparr>calls = l @ [ConsoleError err],
                  updates = [SetErrorMsg ''An error occurred while creating the PDF.'']\<rparr>))"

text \<open>The state after a call of \<^verbatim>\<open>processPdf\<close>.\<close>

definition after_processPdf :: "env \<Rightarrow> app_state \<Rightarrow> sig_pad \<Rightarrow> app_state" where
  "after_processPdf E s c = apply_setters s (updates (processPdf E s c))"

subsection \<open>The component as a machine driven by events\<close>

text \<open>
  The whole of the component: its state, the drawing surface, and the file reads that have
  been started and have not completed. Handlers run one at a time: \<^verbatim>\<open>processPdf\<close> is
  taken as one step, from the click to the last setter call, with no other event between
  its \<^verbatim>\<open>await\<close>s.
\<close>

record sys =
  app :: app_state
  sigCanvas :: sig_pad
  readers :: "file_obj list"

definition initial_sys :: sys where
  "initial_sys = \<lparr>app = initial_state, sigCanvas = [], readers = []\<rparr>"

datatype event =
    FileChange "file_obj option"
  | ReaderLoad nat
  | DrawStroke stroke
  | ClickClear
  | ClickSign

text \<open>
  \<open>ReaderLoad i\<close> is the completion of the \<open>i\<close>-th pending read. The Sign button is
  disabled while \<^verbatim>\<open>pdfFile\<close> is \<^verbatim>\<open>null\<close>, so a click on it then reaches no handler.
\<close>

fun step :: "env \<Rightarrow> sys \<Rightarrow> event \<Rightarrow> sys" where
  "step E s (FileChange f) =
     (case handleFileChange f of
        (None, us) \<Rightarrow> s\<lparr>app := apply_setters (app s) us\<rparr>
      | (Some file, us) \<Rightarrow>
          s\<lparr>app := apply_setters (app s) us, readers := readers s @ [file]\<rparr>)"
| "step E s (ReaderLoad i) =
     (if i < length (readers s)
      then s\<lparr>app := apply_setters (app s)
                 (onload (readers s ! i) (file_bytes (readers s ! i))),
             readers := take i (readers s) @ drop (Suc i) (readers s)\<rparr>
      else s)"
| "step E s (DrawStroke k) = s\<lparr>sigCanvas := pad_draw k (sigCanvas s)\<rparr>"
| "step E s ClickClear = s\<lparr>sigCanvas := clearSignature (sigCanvas s)\<rparr>"
| "step E s ClickSign =
     (if pdfFile (app s) = None then s
      else s\<lparr>app := after_processPdf E (app s) (sigCanvas s)\<rparr>)"

definition run :: "env \<Rightarrow> sys \<Rightarrow> event list \<Rightarrow> sys" where
  "run E s evs = foldl (step E) s evs"

subsection \<open>A small environment for concrete runs\<close>

text \<open>
  A stand-in for the libraries, defined on a few byte strings: a two-page document, a
  document without pages, and the signed two-page document. Every signature exports to the
  same raster of 300 by 120 pixels.
\<close>

definition twoPagePdf :: bytes where
  "twoPagePdf = [0x25, 0x50, 0x44, 0x46, 0x02]"

definition noPagePdf :: bytes where
  "noPagePdf = [0x25, 0x50, 0x44, 0x46, 0x00]"

definition signedPdf :: bytes where
  "signedPdf = [0x25, 0x50, 0x44, 0x46, 0x02, 0x01]"

definition sigPng :: bytes where
  "sigPng = [0x89, 0x50, 0x4E, 0x47]"

definition sigImage :: image where
  "sigImage = \<lparr>img_width = 300, img_height = 120\<rparr>"

definition twoPageDoc :: pdf_doc where
  "twoPageDoc =
     \<lparr>doc_pages =
        [\<lparr>page_width = js_of_int 612, page_height = js_of_int 792, page_content = []\<rparr>,
         \<lparr>page_width = js_of_int 595, page_height = js_of_int 842, page_content = []\<rparr>],
      doc_images = []\<rparr>"

definition signedDoc :: pdf_doc where
  "signedDoc =
     \<lparr>doc_pages =
        [\<lparr>page_width = js_of_int 612, page_height = js_of_int 792,
          page_content =
            [\<lparr>op_image = sigImage, op_x = js_of_int 442, op_y = js_of_int 20,
              op_width = js_of_int 150, op_height = js_of_int 60\<rparr>]\<rparr>,
         \<lparr>page_width = js_of_int 595, page_height = js_of_int 842, page_content = []\<rparr>],
      doc_images = [sigImage]\<rparr>"

definition demo_env :: env where
  "demo_env =
     \<lparr>PDFDocument_load =
        (\<lambda>b. if b = twoPagePdf then Some twoPageDoc
             else if b = noPagePdf then Some \<lparr>doc_pages = [], doc_images = []\<rparr>
             else if b = signedPdf then Some signedDoc
             else None),
      getTrimmedCanvas_png = (\<lambda>c. Some sigPng),
      decodePng = (\<lambda>b. if b = sigPng then Some sigImage else None),
      pdfDoc_save = (\<lambda>d. if d = signedDoc then Some signedPdf else None),
      URL_createObjectURL = (\<lambda>b. Some ''blob:signed'')\<rparr>"

text \<open>
  A document with one page that is \<open>10 ^ 17\<close> units wide, and the environment in which it
  parses.
\<close>

definition widePdf :: bytes where
  "widePdf = [0x25, 0x50, 0x44, 0x46, 0x03]"

definition wideDoc :: pdf_doc where
  "wideDoc =
     \<lparr>doc_pages =
        [\<lparr>page_width = js_of_int 100000000000000000, page_height = js_of_int 792,
          page_content = []\<rparr>],
      doc_images = []\<rparr>"

definition wide_env :: env where
  "wide_env =
     demo_env\<lparr>PDFDocument_load :=
       (\<lambda>b. if b = widePdf then Some wideDoc else PDFDocument_load demo_env b)\<rparr>"

definition wide_state :: app_state where
  "wide_state =
     \<lparr>pdfFile = Some widePdf, fileName = ''wide.pdf'',
      signedPdfUrl = None, errorMsg = ''''\<rparr>"

definition contract_pdf :: file_obj where
  "contract_pdf =
     \<lparr>file_type = ''application/pdf'', file_name = ''contract.pdf'', file_bytes = twoPagePdf\<rparr>"

definition empty_pdf :: file_obj where
  "empty_pdf =
     \<lparr>file_type = ''application/pdf'', file_name = ''empty.pdf'', file_bytes = noPagePdf\<rparr>"

definition photo_png :: file_obj where
  "photo_png =
     \<lparr>file_type = ''image/png'', file_name = ''photo.png'', file_bytes = sigPng\<rparr>"

definition a_stroke :: stroke where
  "a_stroke = [(10, 10), (40, 25)]"

text \<open>The state once \<open>contract_pdf\<close> has been read, and the state once it has been signed.\<close>

definition loaded_state :: app_state where
  "loaded_state =
     \<lparr>pdfFile = Some twoPagePdf, fileName = ''contract.pdf'',
      signedPdfUrl = None, errorMsg = ''''\<rparr>"

definition signed_state :: app_state where
  "signed_state =
     \<lparr>pdfFile = Some twoPagePdf, fileName = ''contract.pdf'',
      signedPdfUrl = Some ''blob:signed'', errorMsg = ''''\<rparr>"

definition nopage_state :: app_state where
  "nopage_state =
     \<lparr>pdfFile = Some noPagePdf, fileName = ''empty.pdf'',
      signedPdfUrl = None, errorMsg = ''''\<rparr>"

text \<open>Upload, draw, sign; then clear the surface and sign again.\<close>

definition sign_then_resign_empty :: "event list" where
  "sign_then_resign_empty =
     [FileChange (Some contract_pdf), ReaderLoad 0, DrawStroke a_stroke, ClickSign,
      ClickClear, ClickSign]"

text \<open>Upload, draw, sign; then pick a file that is not a PDF.\<close>

definition sign_then_pick_photo :: "event list" where
  "sign_then_pick_photo =
     [FileChange (Some contract_pdf), ReaderLoad 0, DrawStroke a_stroke, ClickSign,
      FileChange (Some photo_png)]"

subsection \<open>Reading the log of an attempt\<close>

text \<open>The options of the drawing calls in a list of calls, in order.\<close>

fun drawn :: "lib_call list \<Rightarrow> draw_op list" where
  "drawn [] = []"
| "drawn (DrawImage d # cs) = d # drawn cs"
| "drawn (_ # cs) = drawn cs"

text \<open>The documents passed to \<^verbatim>\<open>save\<close> in a list of calls, in order.\<close>

fun saved :: "lib_call list \<Rightarrow> pdf_doc list" where
  "saved [] = []"
| "saved (Save d # cs) = d # saved cs"
| "saved (_ # cs) = saved cs"

section \<open>Properties\<close>

subsection \<open>Unfolding the model\<close>

lemmas handler_defs =
  handleFileChange_def onload_def apply_setters_def after_processPdf_def
  clearSignature_def pad_clear_def pad_draw_def isEmpty_def

lemmas compose_defs =
  compose_def andThen_def invoke_def embedPng_def firstPage_of_def
  drawOptions_def scale_def getSize_def drawImage_def Let_def

lemmas demo_defs =
  demo_env_def twoPagePdf_def noPagePdf_def signedPdf_def sigPng_def sigImage_def
  twoPageDoc_def signedDoc_def contract_pdf_def empty_pdf_def photo_png_def a_stroke_def
  loaded_state_def signed_state_def nopage_state_def

lemmas wide_defs =
  wide_env_def widePdf_def wideDoc_def wide_state_def

lemmas run_defs =
  run_def initial_sys_def initial_state_def sign_then_resign_empty_def
  sign_then_pick_photo_def

subsection \<open>Numbers\<close>

text \<open>The value of a finite number, with one power for both signs of the exponent.\<close>

lemma dy_powr: "dy m e = of_int m * 2 powr (of_int e)"
proof (cases "0 \<le> e")
  case True
  then have "(2::real) powr (of_int e) = 2 ^ nat e"
    by (simp add: powr_realpow [symmetric])
  with True show ?thesis by (simp add: dy_def)
next
  case False
  then have "(2::real) powr (of_int e) = 1 / 2 ^ nat (- e)"
    using powr_realpow [of "2::real" "nat (- e)"] powr_minus_divide [of "2::real" "of_int (- e)"]
    by simp
  with False show ?thesis by (simp add: dy_def)
qed

lemma dy_zero [simp]: "dy 0 e = 0"
  by (simp add: dy_def)

lemma dy_minus: "dy (- m) e = - dy m e"
  by (simp add: dy_powr)

lemma dy_abs: "dy \<bar>m\<bar> e = \<bar>dy m e\<bar>"
  by (simp add: dy_powr abs_mult)

lemma dy_eq_zero_iff: "dy m e = 0 \<longleftrightarrow> m = 0"
  by (simp add: dy_powr)

lemma dy_shift: "0 \<le> k \<Longrightarrow> dy (m * 2 ^ nat k) e = dy m (e + k)"
  by (simp add: dy_powr powr_add powr_realpow [symmetric])

lemma dy_mult: "dy (m1 * m2) (e1 + e2) = dy m1 e1 * dy m2 e2"
  by (simp add: dy_powr powr_add)

lemma dy_diff_aligned:
  "dy (m1 * 2 ^ nat (e1 - min e1 e2) - m2 * 2 ^ nat (e2 - min e1 e2)) (min e1 e2) =
     dy m1 e1 - dy m2 e2"
proof -
  have "dy (m1 * 2 ^ nat (e1 - min e1 e2) - m2 * 2 ^ nat (e2 - min e1 e2)) (min e1 e2) =
      dy (m1 * 2 ^ nat (e1 - min e1 e2)) (min e1 e2) -
      dy (m2 * 2 ^ nat (e2 - min e1 e2)) (min e1 e2)"
    by (simp add: dy_powr algebra_simps)
  also have "\<dots> = dy m1 (min e1 e2 + (e1 - min e1 e2)) - dy m2 (min e1 e2 + (e2 - min e1 e2))"
    by (simp add: dy_shift)
  finally show ?thesis by simp
qed

lemma strip_zero [simp]: "strip 0 e = (0, 0)"
  by (simp add: strip.simps)

lemma strip_odd: "0 < n \<Longrightarrow> odd n \<Longrightarrow> strip n e = (n, e)"
  by (simp add: strip.simps)

lemma bits_zero [simp]: "bits 0 = 0"
  by (simp add: bits.simps)

lemma strip_pos:
  "0 < n \<Longrightarrow> strip n e = (n', e') \<Longrightarrow>
     odd n' \<and> 0 < n' \<and> n' \<le> n \<and> e \<le> e' \<and> dy n' e' = dy n e"
proof (induction n e rule: strip.induct)
  case (1 n e)
  show ?case
  proof (cases "even n")
    case True
    with "1.prems" have pos: "0 < n div 2" and s: "strip (n div 2) (e + 1) = (n', e')"
      by (auto simp add: strip.simps [of n e] elim: evenE)
    from "1.prems"(1) True have "\<not> n \<le> 0" by simp
    from "1.IH" [OF this True pos s]
    have ih: "odd n' \<and> 0 < n' \<and> n' \<le> n div 2 \<and> e + 1 \<le> e' \<and> dy n' e' = dy (n div 2) (e + 1)" .
    from True have "dy (n div 2) (e + 1) = dy n e"
      by (auto simp add: dy_powr powr_add elim!: evenE)
    with ih "1.prems"(1) show ?thesis by auto
  next
    case False
    with "1.prems" show ?thesis by (simp add: strip.simps [of n e])
  qed
qed

lemma odd_dy_unique:
  assumes "odd n" and "odd n'" and "dy n e = dy n' e'"
  shows "n = n' \<and> e = e'"
proof -
  have aux: "e1 = e2 \<and> a = b"
    if "odd a" and "odd b" and "dy a e1 = dy b e2" and "e1 \<le> e2" for a b :: int and e1 e2 :: int
  proof -
    have "dy b e2 = dy (b * 2 ^ nat (e2 - e1)) e1"
      using that(4) by (simp add: dy_shift)
    with that(3) have "of_int a * 2 powr (of_int e1) = (of_int (b * 2 ^ nat (e2 - e1)) :: real) * 2 powr (of_int e1)"
      by (simp only: dy_powr)
    then have "(of_int a :: real) = of_int (b * 2 ^ nat (e2 - e1))"
      by simp
    then have eq: "a = b * 2 ^ nat (e2 - e1)"
      by (simp only: of_int_eq_iff)
    have "e1 = e2"
    proof (rule ccontr)
      assume "e1 \<noteq> e2"
      with that(4) have "0 < nat (e2 - e1)" by simp
      then have "even ((2::int) ^ nat (e2 - e1))" by simp
      with eq have "even a" by simp
      with that(1) show False by simp
    qed
    with eq show ?thesis by simp
  qed
  show ?thesis
  proof (cases "e \<le> e'")
    case True
    from aux [OF assms True] show ?thesis by simp
  next
    case False
    then have "e' \<le> e" by simp
    from aux [OF assms(2,1) assms(3) [symmetric] this] show ?thesis by simp
  qed
qed

lemma bits_bounds: "0 < n \<Longrightarrow> 0 < bits n \<and> 2 ^ nat (bits n - 1) \<le> n \<and> n < 2 ^ nat (bits n)"
proof (induction n rule: bits.induct)
  case (1 n)
  show ?case
  proof (cases "n = 1")
    case True
    then show ?thesis by (simp add: bits.simps [of 1])
  next
    case False
    with "1.prems" have pos: "0 < n div 2" by simp
    from "1.prems" have "\<not> n \<le> 0" by simp
    from "1.IH" [OF this pos]
    have ih: "0 < bits (n div 2) \<and> 2 ^ nat (bits (n div 2) - 1) \<le> n div 2 \<and>
      n div 2 < 2 ^ nat (bits (n div 2))" .
    have b: "bits n = 1 + bits (n div 2)"
      using "1.prems" by (simp add: bits.simps [of n])
    from ih have k: "nat (bits n - 1) = Suc (nat (bits (n div 2) - 1))"
      "nat (bits n) = Suc (nat (bits (n div 2)))"
      unfolding b by arith+
    from ih have "2 * 2 ^ nat (bits (n div 2) - 1) \<le> n" "n < 2 * 2 ^ nat (bits (n div 2))"
      by auto
    with ih b k show ?thesis by simp
  qed
qed

lemma bits_le:
  assumes "0 < n" and "n < 2 ^ k"
  shows "bits n \<le> int k"
proof (rule ccontr)
  assume "\<not> bits n \<le> int k"
  then have "k \<le> nat (bits n - 1)" by simp
  then have "(2::int) ^ k \<le> 2 ^ nat (bits n - 1)"
    by (simp add: power_increasing)
  with bits_bounds [OF assms(1)] assms(2) show False by simp
qed


lemma round_double_zero: "round_double 0 e = Fin 0 0"
  by (simp add: round_double_def finite_or_inf_def)

lemma dy_bits_lower:
  assumes "0 < n"
  shows "2 powr (of_int (bits n - 1 + e)) \<le> dy n e"
proof -
  from bits_bounds [OF assms] have pos: "0 < bits n" and lo: "2 ^ nat (bits n - 1) \<le> n"
    by simp_all
  from lo have "(of_int (2 ^ nat (bits n - 1)) :: real) \<le> of_int n"
    by (simp only: of_int_le_iff)
  then have "(2::real) ^ nat (bits n - 1) \<le> of_int n" by simp
  moreover from pos have "(2::real) ^ nat (bits n - 1) = 2 powr (of_int (bits n - 1))"
    by (simp add: powr_realpow [symmetric])
  ultimately have "(2::real) powr (of_int (bits n - 1)) \<le> of_int n" by simp
  then have "(2::real) powr (of_int (bits n - 1)) * 2 powr (of_int e) \<le>
      of_int n * 2 powr (of_int e)"
    by (rule mult_right_mono) simp
  then show ?thesis by (simp add: dy_powr powr_add)
qed

lemma dy_upper:
  assumes "\<bar>m\<bar> < 2 ^ k" and "e \<le> j"
  shows "\<bar>dy m e\<bar> < 2 powr (of_int (int k + j))"
proof -
  from assms(1) have "(of_int \<bar>m\<bar> :: real) < of_int (2 ^ k)"
    by (simp only: of_int_less_iff)
  then have "\<bar>of_int m :: real\<bar> < 2 ^ k" by simp
  then have m: "\<bar>of_int m :: real\<bar> < 2 powr (of_int (int k))"
    by (simp add: powr_realpow [symmetric])
  from assms(2) have e: "(2::real) powr (of_int e) \<le> 2 powr (of_int j)"
    by (intro powr_mono) simp_all
  have "\<bar>dy m e\<bar> = \<bar>of_int m\<bar> * 2 powr (of_int e)"
    by (simp add: dy_powr abs_mult)
  also have "\<dots> \<le> \<bar>of_int m\<bar> * 2 powr (of_int j)"
    using e by (rule mult_left_mono) simp
  also have "\<dots> < 2 powr (of_int (int k)) * 2 powr (of_int j)"
    using m by (rule mult_strict_right_mono) simp
  also have "\<dots> = 2 powr (of_int (int k + j))"
    by (simp add: powr_add)
  finally show ?thesis .
qed

text \<open>A value that is a double is not changed by the rounding.\<close>

lemma round_double_exact:
  assumes "dy m e = dy m1 e1" and "\<bar>m1\<bar> < 2 ^ 53" and "- 1074 \<le> e1" and "e1 \<le> 971"
  shows "js_value (round_double m e) = Some (dy m e)"
proof (cases "m = 0")
  case True
  then show ?thesis by (simp add: round_double_zero)
next
  case False
  then have mpos: "0 < \<bar>m\<bar>" by simp
  from False assms(1) have "m1 \<noteq> 0"
    using dy_eq_zero_iff [of m e] dy_eq_zero_iff [of m1 e1] by simp
  then have m1pos: "0 < \<bar>m1\<bar>" by simp
  obtain n e' where s: "strip \<bar>m\<bar> e = (n, e')" by (cases "strip \<bar>m\<bar> e")
  obtain n1 e1' where s1: "strip \<bar>m1\<bar> e1 = (n1, e1')" by (cases "strip \<bar>m1\<bar> e1")
  from strip_pos [OF mpos s]
  have n: "odd n" "0 < n" "dy n e' = \<bar>dy m e\<bar>" by (simp_all add: dy_abs)
  from strip_pos [OF m1pos s1]
  have n1: "odd n1" "n1 \<le> \<bar>m1\<bar>" "e1 \<le> e1'" "dy n1 e1' = \<bar>dy m1 e1\<bar>"
    by (simp_all add: dy_abs)
  from n(3) n1(4) assms(1) have "dy n e' = dy n1 e1'" by simp
  from odd_dy_unique [OF n(1) n1(1) this] have same: "n = n1" "e' = e1'" by simp_all
  from same n1(2) assms(2) have small: "n < 2 ^ 53" by simp
  from same n1(3) assms(3) have elow: "- 1074 \<le> e'" by simp
  from bits_le [OF n(2) small] have b53: "bits n \<le> 53" by simp
  have "2 powr (of_int (bits n - 1 + e')) \<le> dy n e'"
    by (rule dy_bits_lower [OF n(2)])
  also have "\<dots> < 2 powr (of_int (int 53 + 971))"
    using dy_upper [OF assms(2,4)] n(3) assms(1) by simp
  finally have "(2::real) powr (of_int (bits n - 1 + e')) < 2 powr (of_int (int 53 + 971))" .
  then have "(of_int (bits n - 1 + e') :: real) < of_int (int 53 + 971)"
    by (rule powr_less_cancel) simp
  then have "bits n - 1 + e' < int 53 + 971" by (simp only: of_int_less_iff)
  then have noov: "\<not> 1024 < e' + bits n" by simp
  from b53 elow have q: "max (e' + bits n - 53) (- 1074) \<le> e'" by simp
  have "round_double m e = Fin (if m < 0 then - n else n) e'"
    using s q noov strip_odd [OF n(2) n(1), of e']
    by (simp add: round_double_def finite_or_inf_def Let_def)
  moreover have "dy (if m < 0 then - n else n) e' = dy m e"
  proof (cases "m < 0")
    case True
    then have "dy m e \<le> 0" by (simp add: dy_powr mult_nonpos_nonneg)
    with True n(3) show ?thesis by (simp add: dy_minus)
  next
    case False
    then have "0 \<le> dy m e" by (simp add: dy_powr)
    with False n(3) show ?thesis by simp
  qed
  ultimately show ?thesis by simp
qed

lemma js_sub_exact:
  assumes "js_value a = Some x" and "js_value b = Some y"
    and "x - y = dy m1 e1" and "\<bar>m1\<bar> < 2 ^ 53" and "- 1074 \<le> e1" and "e1 \<le> 971"
  shows "js_value (js_sub a b) = Some (x - y)"
proof -
  from assms(1) obtain ma ea where a: "a = Fin ma ea" and x: "x = dy ma ea"
    by (cases a) auto
  from assms(2) obtain mb eb where b: "b = Fin mb eb" and y: "y = dy mb eb"
    by (cases b) auto
  have "dy (ma * 2 ^ nat (ea - min ea eb) - mb * 2 ^ nat (eb - min ea eb)) (min ea eb) =
      dy m1 e1"
    using assms(3) x y by (simp only: dy_diff_aligned)
  from round_double_exact [OF this assms(4-6)] show ?thesis
    unfolding a b x y by (simp add: js_sub.simps Let_def dy_diff_aligned)
qed

lemma js_mul_exact:
  assumes "js_value a = Some x" and "js_value b = Some y"
    and "x * y = dy m1 e1" and "\<bar>m1\<bar> < 2 ^ 53" and "- 1074 \<le> e1" and "e1 \<le> 971"
  shows "js_value (js_mul a b) = Some (x * y)"
proof -
  from assms(1) obtain ma ea where a: "a = Fin ma ea" and x: "x = dy ma ea"
    by (cases a) auto
  from assms(2) obtain mb eb where b: "b = Fin mb eb" and y: "y = dy mb eb"
    by (cases b) auto
  have "dy (ma * mb) (ea + eb) = dy m1 e1"
    using assms(3) x y by (simp only: dy_mult)
  from round_double_exact [OF this assms(4-6)] show ?thesis
    unfolding a b x y by (simp add: js_mul.simps dy_mult)
qed

lemma js_of_int_exact:
  assumes "\<bar>n\<bar> < 2 ^ 53"
  shows "js_value (js_of_int n) = Some (of_int n)"
  using round_double_exact [of n 0 n 0] assms by (simp add: js_of_int_def dy_def)

lemma js_half_of_int_exact:
  assumes "\<bar>n\<bar> < 2 ^ 53"
  shows "js_value (js_mul (js_of_int n) half) = Some (of_int n / 2)"
proof -
  have h: "js_value half = Some (1 / 2)" by (simp add: half_def dy_def)
  have "of_int n * (1 / 2) = dy n (- 1)" by (simp add: dy_def)
  from js_mul_exact [OF js_of_int_exact [OF assms] h this assms] show ?thesis by simp
qed


text \<open>The numbers of the concrete runs.\<close>

lemma demo_numbers:
  "js_of_int 612 = Fin 153 2" "js_of_int 792 = Fin 99 3"
  "js_of_int 595 = Fin 595 0" "js_of_int 842 = Fin 421 1"
  "js_of_int 442 = Fin 221 1" "js_of_int 150 = Fin 75 1"
  "js_of_int 60 = Fin 15 2" "js_of_int 20 = Fin 5 2"
  "js_mul (js_of_int 300) half = Fin 75 1"
  "js_mul (js_of_int 120) half = Fin 15 2"
  "js_sub (Fin 153 2) (Fin 75 1) = Fin 231 1"
  "js_sub (Fin 231 1) (Fin 5 2) = Fin 221 1"
  by code_simp+

lemma wide_numbers:
  "js_of_int 100000000000000000 = Fin 762939453125 17"
  "js_sub (Fin 762939453125 17) (Fin 75 1) = Fin 6249999999999991 4"
  "js_sub (Fin 6249999999999991 4) (Fin 5 2) = Fin 3124999999999995 5"
  by code_simp+

subsection \<open>The steps of the try block\<close>

text \<open>Each statement of the block that can throw ends the attempt where it stands.\<close>

lemma compose_parse_fails:
  assumes "PDFDocument_load E pdf = None"
  shows "compose E pdf c = ([Load pdf], Inl ParseFailed)"
  using assms by (simp add: compose_defs)

lemma compose_export_fails:
  assumes "PDFDocument_load E pdf = Some d" and "getTrimmedCanvas_png E c = None"
  shows "compose E pdf c = ([Load pdf, ExportPng], Inl ExportFailed)"
  using assms by (simp add: compose_defs)

lemma compose_embed_fails:
  assumes "PDFDocument_load E pdf = Some d" and "getTrimmedCanvas_png E c = Some png"
    and "decodePng E png = None"
  shows "compose E pdf c = ([Load pdf, ExportPng, EmbedPng png], Inl EmbedFailed)"
  using assms by (simp add: compose_defs)

lemma compose_no_page_fails:
  assumes "PDFDocument_load E pdf = Some d" and "getTrimmedCanvas_png E c = Some png"
    and "decodePng E png = Some img" and "doc_pages d = []"
  shows "compose E pdf c = ([Load pdf, ExportPng, EmbedPng png, GetPages], Inl NoFirstPage)"
  using assms by (simp add: compose_defs)

text \<open>
  With a first page, the block reaches the drawing and the serialization: the calls up to
  \<^verbatim>\<open>save\<close> are determined, and what follows depends on \<^verbatim>\<open>save\<close> and on the
  creation of the object URL only.
\<close>

lemma compose_calls_prefix:
  assumes "PDFDocument_load E pdf = Some d" and "getTrimmedCanvas_png E c = Some png"
    and "decodePng E png = Some img" and "doc_pages d = p # ps"
    and "opts = \<lparr>op_image = img,
           op_x = js_sub (js_sub (page_width p) (js_mul (js_of_int (int (img_width img))) half))
                    (js_of_int 20),
           op_y = js_of_int 20,
           op_width = js_mul (js_of_int (int (img_width img))) half,
           op_height = js_mul (js_of_int (int (img_height img))) half\<rparr>"
    and "d' = d\<lparr>doc_images := doc_images d @ [img], doc_pages := drawImage p opts # ps\<rparr>"
  shows "fst (compose E pdf c) =
     [Load pdf, ExportPng, EmbedPng png, GetPages, DrawImage opts, Save d'] @
     (case pdfDoc_save E d' of None \<Rightarrow> [] | Some b \<Rightarrow> [CreateObjectURL b])"
  using assms by (simp add: compose_defs split: option.splits)

lemma compose_succeeds:
  assumes "PDFDocument_load E pdf = Some d" and "getTrimmedCanvas_png E c = Some png"
    and "decodePng E png = Some img" and "doc_pages d = p # ps"
    and "opts = \<lparr>op_image = img,
           op_x = js_sub (js_sub (page_width p) (js_mul (js_of_int (int (img_width img))) half))
                    (js_of_int 20),
           op_y = js_of_int 20,
           op_width = js_mul (js_of_int (int (img_width img))) half,
           op_height = js_mul (js_of_int (int (img_height img))) half\<rparr>"
    and "d' = d\<lparr>doc_images := doc_images d @ [img], doc_pages := drawImage p opts # ps\<rparr>"
    and "pdfDoc_save E d' = Some out" and "URL_createObjectURL E out = Some url"
  shows "compose E pdf c =
     ([Load pdf, ExportPng, EmbedPng png, GetPages, DrawImage opts, Save d',
       CreateObjectURL out], Inr url)"
  using assms by (simp add: compose_defs)

lemma compose_save_fails:
  assumes "PDFDocument_load E pdf = Some d" and "getTrimmedCanvas_png E c = Some png"
    and "decodePng E png = Some img" and "doc_pages d = p # ps"
    and "opts = \<lparr>op_image = img,
           op_x = js_sub (js_sub (page_width p) (js_mul (js_of_int (int (img_width img))) half))
                    (js_of_int 20),
           op_y = js_of_int 20,
           op_width = js_mul (js_of_int (int (img_width img))) half,
           op_height = js_mul (js_of_int (int (img_height img))) half\<rparr>"
    and "d' = d\<lparr>doc_images := doc_images d @ [img], doc_pages := drawImage p opts # ps\<rparr>"
    and "pdfDoc_save E d' = None"
  shows "compose E pdf c =
     ([Load pdf, ExportPng, EmbedPng png, GetPages, DrawImage opts, Save d'],
      Inl SerializeFailed)"
  using assms by (simp add: compose_defs)

lemma compose_url_fails:
  assumes "PDFDocument_load E pdf = Some d" and "getTrimmedCanvas_png E c = Some png"
    and "decodePng E png = Some img" and "doc_pages d = p # ps"
    and "opts = \<lparr>op_image = img,
           op_x = js_sub (js_sub (page_width p) (js_mul (js_of_int (int (img_width img))) half))
                    (js_of_int 20),
           op_y = js_of_int 20,
           op_width = js_mul (js_of_int (int (img_width img))) half,
           op_height = js_mul (js_of_int (int (img_height img))) half\<rparr>"
    and "d' = d\<lparr>doc_images := doc_images d @ [img], doc_pages := drawImage p opts # ps\<rparr>"
    and "pdfDoc_save E d' = Some out" and "URL_createObjectURL E out = None"
  shows "compose E pdf c =
     ([Load pdf, ExportPng, EmbedPng png, GetPages, DrawImage opts, Save d',
       CreateObjectURL out], Inl ObjectUrlFailed)"
  using assms by (simp add: compose_defs)

text \<open>What \<^verbatim>\<open>processPdf\<close> does with the result of the block.\<close>

lemma processPdf_caught:
  assumes "pdfFile s = Some pdf" and "\<not> isEmpty c" and "compose E pdf c = (l, Inl err)"
  shows "processPdf E s c =
     \<lparr>calls = l @ [ConsoleError err],
      updates = [SetErrorMsg ''An error occurred while creating the PDF.'']\<rparr>"
  using assms by (simp add: processPdf_def)

lemma processPdf_returned:
  assumes "pdfFile s = Some pdf" and "\<not> isEmpty c" and "compose E pdf c = (l, Inr url)"
  shows "processPdf E s c =
     \<lparr>calls = l, updates = [SetSignedPdfUrl (Some url), SetErrorMsg '''']\<rparr>"
  using assms by (simp add: processPdf_def)

lemma processPdf_updates_cases:
  "(\<exists>m. m \<noteq> '''' \<and> updates (processPdf E s c) = [SetErrorMsg m]) \<or>
   (\<exists>url. updates (processPdf E s c) = [SetSignedPdfUrl (Some url), SetErrorMsg ''''])"
proof (cases "pdfFile s")
  case None
  then show ?thesis by (simp add: processPdf_def)
next
  case (Some pdf)
  show ?thesis
  proof (cases "isEmpty c")
    case True
    with Some show ?thesis by (simp add: processPdf_def)
  next
    case False
    obtain l r where lr: "compose E pdf c = (l, r)" by (cases "compose E pdf c")
    show ?thesis
    proof (cases r)
      case (Inl err)
      with processPdf_caught [OF Some False] lr show ?thesis by simp
    next
      case (Inr url)
      with processPdf_returned [OF Some False] lr show ?thesis by simp
    qed
  qed
qed

lemma processPdf_calls:
  assumes "pdfFile s = Some pdf" and "\<not> isEmpty c"
  shows "calls (processPdf E s c) =
     fst (compose E pdf c) @
     (case snd (compose E pdf c) of Inl err \<Rightarrow> [ConsoleError err] | Inr url \<Rightarrow> [])"
  using assms by (simp add: processPdf_def split: prod.splits sum.splits)

lemma drawn_append: "drawn (xs @ ys) = drawn xs @ drawn ys"
  by (induction xs rule: drawn.induct) simp_all

lemma drawn_after_block:
  "drawn (case r of Inl err \<Rightarrow> [ConsoleError err] | Inr url \<Rightarrow> []) = []"
  by (cases r) simp_all

lemma drawn_after_save:
  "drawn (case b of None \<Rightarrow> [] | Some x \<Rightarrow> [CreateObjectURL x]) = []"
  by (cases b) simp_all

lemma saved_append: "saved (xs @ ys) = saved xs @ saved ys"
  by (induction xs rule: saved.induct) simp_all

lemma saved_after_block:
  "saved (case r of Inl err \<Rightarrow> [ConsoleError err] | Inr url \<Rightarrow> []) = []"
  by (cases r) simp_all

lemma saved_after_save:
  "saved (case b of None \<Rightarrow> [] | Some x \<Rightarrow> [CreateObjectURL x]) = []"
  by (cases b) simp_all

lemma app_state_all_fields:
  fixes s :: app_state
  shows "s\<lparr>pdfFile := a, fileName := b, signedPdfUrl := u, errorMsg := m\<rparr> =
     \<lparr>pdfFile = a, fileName = b, signedPdfUrl = u, errorMsg = m\<rparr>"
  by (cases s) simp

subsection \<open>Result and error after an attempt\<close>

text \<open>
  C1, as the code has it. \<^verbatim>\<open>processPdf\<close> resets nothing on entry. Every call of it makes
  one of two sequences of setter calls: either the single call \<^verbatim>\<open>setErrorMsg\<close> with a
  message that is not empty, which leaves \<^verbatim>\<open>signedPdfUrl\<close> as it was, or
  \<^verbatim>\<open>setSignedPdfUrl(url)\<close> followed by \<^verbatim>\<open>setErrorMsg("")\<close>. So when \<^verbatim>\<open>signedPdfUrl\<close> was
  empty before the attempt, the result and the error are not both non-empty after it.
\<close>

theorem processPdf_sets_error_or_result:
  "((\<exists>m. m \<noteq> '''' \<and> updates (processPdf E s c) = [SetErrorMsg m]) \<or>
    (\<exists>url. updates (processPdf E s c) = [SetSignedPdfUrl (Some url), SetErrorMsg ''''])) \<and>
   (signedPdfUrl s = None \<longrightarrow>
      signedPdfUrl (after_processPdf E s c) = None \<or> errorMsg (after_processPdf E s c) = '''')"
proof
  show cases: "(\<exists>m. m \<noteq> '''' \<and> updates (processPdf E s c) = [SetErrorMsg m]) \<or>
    (\<exists>url. updates (processPdf E s c) = [SetSignedPdfUrl (Some url), SetErrorMsg ''''])"
    by (rule processPdf_updates_cases)
  show "signedPdfUrl s = None \<longrightarrow>
      signedPdfUrl (after_processPdf E s c) = None \<or> errorMsg (after_processPdf E s c) = ''''"
    using cases by (auto simp add: after_processPdf_def apply_setters_def)
qed

theorem processPdf_sets_error_or_result_witness:
  "signedPdfUrl loaded_state = None \<and>
   updates (processPdf demo_env loaded_state [a_stroke]) =
     [SetSignedPdfUrl (Some ''blob:signed''), SetErrorMsg ''''] \<and>
   (signedPdfUrl (after_processPdf demo_env loaded_state [a_stroke]) = None \<or>
    errorMsg (after_processPdf demo_env loaded_state [a_stroke]) = '''')"
  using processPdf_sets_error_or_result [of demo_env loaded_state "[a_stroke]"]
  by (simp add: processPdf_def handler_defs compose_defs demo_defs demo_numbers)

text \<open>
  C1 as stated fails: after a successful attempt, a second attempt with a cleared drawing
  surface sets the error and leaves the earlier result in place. The attempt did not reset
  \<^verbatim>\<open>signedPdfUrl\<close>.
\<close>

theorem resign_with_cleared_surface_keeps_result:
  "signedPdfUrl (app (run demo_env initial_sys sign_then_resign_empty)) = Some ''blob:signed'' \<and>
   errorMsg (app (run demo_env initial_sys sign_then_resign_empty)) =
     ''Please draw a signature first.'' \<and>
   updates (processPdf demo_env signed_state []) =
     [SetErrorMsg ''Please draw a signature first.'']"
  by (simp add: run_defs processPdf_def handler_defs compose_defs demo_defs demo_numbers)

subsection \<open>Placement of the signature\<close>

text \<open>
  C2, as the code has it. When the document parses, the signature raster decodes to an image
  of \<open>Rw\<close> by \<open>Rh\<close> pixels and the first page has width \<open>W\<close>, the attempt draws exactly
  once, and the document it serializes has that one drawing added to its first page. The
  options of the drawing are computed in double arithmetic, with the constant factor
  \<open>0.5\<close> and no clamping: the width is \<open>0.5 * Rw\<close>, the height is \<open>0.5 * Rh\<close>, \<open>y\<close> is
  \<open>20\<close>, and \<open>x\<close> is \<open>W - 0.5 * Rw\<close> rounded to a double, minus \<open>20\<close>, rounded to a
  double. So \<open>y\<close> is exactly \<open>20\<close>; the width and the height are exactly half the pixel
  dimensions, for dimensions below \<open>2 ^ 53\<close>; and \<open>x\<close> is exactly \<open>W - 0.5 * Rw - 20\<close>,
  of either sign, whenever \<open>W - 0.5 * Rw\<close> and \<open>W - 0.5 * Rw - 20\<close> are doubles, that is,
  of the form \<open>m * 2 ^ e\<close> with \<open>\<bar>m\<bar> < 2 ^ 53\<close> and \<open>- 1074 \<le> e \<le> 971\<close>.
\<close>

theorem drawImage_placement:
  assumes "pdfFile s = Some pdf" and "\<not> isEmpty c"
    and "PDFDocument_load E pdf = Some d" and "getTrimmedCanvas_png E c = Some png"
    and "decodePng E png = Some img" and "doc_pages d = p # ps"
    and "opts = \<lparr>op_image = img,
           op_x = js_sub (js_sub (page_width p) (js_mul (js_of_int (int (img_width img))) half))
                    (js_of_int 20),
           op_y = js_of_int 20,
           op_width = js_mul (js_of_int (int (img_width img))) half,
           op_height = js_mul (js_of_int (int (img_height img))) half\<rparr>"
  shows "drawn (calls (processPdf E s c)) = [opts] \<and>
     saved (calls (processPdf E s c)) =
       [d\<lparr>doc_images := doc_images d @ [img],
          doc_pages := p\<lparr>page_content := page_content p @ [opts]\<rparr> # ps\<rparr>] \<and>
     js_value (op_y opts) = Some 20 \<and>
     (img_width img < 2 ^ 53 \<longrightarrow>
        js_value (op_width opts) = Some (0.5 * real (img_width img))) \<and>
     (img_height img < 2 ^ 53 \<longrightarrow>
        js_value (op_height opts) = Some (0.5 * real (img_height img))) \<and>
     (js_value (page_width p) = Some w \<and> img_width img < 2 ^ 53 \<and>
      w - 0.5 * real (img_width img) = dy m1 e1 \<and>
      \<bar>m1\<bar> < 2 ^ 53 \<and> - 1074 \<le> e1 \<and> e1 \<le> 971 \<and>
      w - 0.5 * real (img_width img) - 20 = dy m2 e2 \<and>
      \<bar>m2\<bar> < 2 ^ 53 \<and> - 1074 \<le> e2 \<and> e2 \<le> 971 \<longrightarrow>
        js_value (op_x opts) = Some (w - 0.5 * real (img_width img) - 20))"
proof -
  have log: "calls (processPdf E s c) =
      ([Load pdf, ExportPng, EmbedPng png, GetPages, DrawImage opts,
        Save (d\<lparr>doc_images := doc_images d @ [img], doc_pages := drawImage p opts # ps\<rparr>)] @
       (case pdfDoc_save E
               (d\<lparr>doc_images := doc_images d @ [img], doc_pages := drawImage p opts # ps\<rparr>) of
          None \<Rightarrow> [] | Some b \<Rightarrow> [CreateObjectURL b])) @
      (case snd (compose E pdf c) of Inl err \<Rightarrow> [ConsoleError err] | Inr url \<Rightarrow> [])"
    unfolding processPdf_calls [OF assms(1,2)] compose_calls_prefix [OF assms(3-7) refl] ..
  have one_draw: "drawn (calls (processPdf E s c)) = [opts]"
    unfolding log drawn_append by (simp add: drawn_after_block drawn_after_save)
  have one_save: "saved (calls (processPdf E s c)) =
       [d\<lparr>doc_images := doc_images d @ [img],
          doc_pages := p\<lparr>page_content := page_content p @ [opts]\<rparr> # ps\<rparr>]"
    unfolding log saved_append
    by (simp add: saved_after_block saved_after_save drawImage_def)
  have twenty: "js_value (js_of_int 20) = Some 20"
    using js_of_int_exact [of 20] by simp
  have y: "js_value (op_y opts) = Some 20"
    using twenty by (simp add: assms(7))
  have width: "js_value (op_width opts) = Some (0.5 * real (img_width img))"
    if "img_width img < 2 ^ 53"
    using js_half_of_int_exact [of "int (img_width img)"] that by (simp add: assms(7))
  have height: "js_value (op_height opts) = Some (0.5 * real (img_height img))"
    if "img_height img < 2 ^ 53"
    using js_half_of_int_exact [of "int (img_height img)"] that by (simp add: assms(7))
  have x: "js_value (op_x opts) = Some (w - 0.5 * real (img_width img) - 20)"
    if pw: "js_value (page_width p) = Some w" and small: "img_width img < 2 ^ 53"
      and first: "w - 0.5 * real (img_width img) = dy m1 e1"
        "\<bar>m1\<bar> < 2 ^ 53" "- 1074 \<le> e1" "e1 \<le> 971"
      and second: "w - 0.5 * real (img_width img) - 20 = dy m2 e2"
        "\<bar>m2\<bar> < 2 ^ 53" "- 1074 \<le> e2" "e2 \<le> 971"
  proof -
    have sw: "js_value (op_width opts) = Some (0.5 * real (img_width img))"
      by (rule width [OF small])
    then have sw': "js_value (js_mul (js_of_int (int (img_width img))) half) =
        Some (0.5 * real (img_width img))"
      by (simp add: assms(7))
    have inner: "js_value (js_sub (page_width p)
          (js_mul (js_of_int (int (img_width img))) half)) =
        Some (w - 0.5 * real (img_width img))"
      by (rule js_sub_exact [OF pw sw' first])
    have "js_value (js_sub (js_sub (page_width p)
          (js_mul (js_of_int (int (img_width img))) half)) (js_of_int 20)) =
        Some (w - 0.5 * real (img_width img) - 20)"
      by (rule js_sub_exact [OF inner twenty second])
    then show ?thesis by (simp add: assms(7))
  qed
  from one_draw one_save y width height x show ?thesis by blast
qed

theorem drawImage_placement_witness:
  "pdfFile loaded_state = Some twoPagePdf \<and> \<not> isEmpty [a_stroke] \<and>
   PDFDocument_load demo_env twoPagePdf = Some twoPageDoc \<and>
   getTrimmedCanvas_png demo_env [a_stroke] = Some sigPng \<and>
   decodePng demo_env sigPng = Some sigImage \<and>
   js_value (page_width (hd (doc_pages twoPageDoc))) = Some 612 \<and>
   img_width sigImage = 300 \<and> img_height sigImage = 120 \<and>
   612 - 0.5 * real (img_width sigImage) = dy 231 1 \<and>
   612 - 0.5 * real (img_width sigImage) - 20 = dy 221 1 \<and>
   drawn (calls (processPdf demo_env loaded_state [a_stroke])) =
     [\<lparr>op_image = sigImage, op_x = Fin 221 1, op_y = Fin 5 2,
       op_width = Fin 75 1, op_height = Fin 15 2\<rparr>] \<and>
   saved (calls (processPdf demo_env loaded_state [a_stroke])) = [signedDoc] \<and>
   js_value (Fin 221 1) = Some 442 \<and> js_value (Fin 5 2) = Some 20 \<and>
   js_value (Fin 75 1) = Some 150 \<and> js_value (Fin 15 2) = Some 60"
  using drawImage_placement [of loaded_state twoPagePdf "[a_stroke]" demo_env twoPageDoc
      sigPng sigImage
      "\<lparr>page_width = js_of_int 612, page_height = js_of_int 792, page_content = []\<rparr>"
      "[\<lparr>page_width = js_of_int 595, page_height = js_of_int 842, page_content = []\<rparr>]"
      "\<lparr>op_image = sigImage, op_x = Fin 221 1, op_y = Fin 5 2,
        op_width = Fin 75 1, op_height = Fin 15 2\<rparr>" 612 231 1 221 1]
  by (simp add: handler_defs demo_defs demo_numbers dy_def)

text \<open>
  C2 as stated fails where a difference is not a double. On a page \<open>10 ^ 17\<close> units wide
  with a raster 300 pixels wide, the code draws at \<open>x = 99999999999999840\<close>, and
  \<open>W - 0.5 * Rw - 20\<close> is \<open>99999999999999830\<close>.
\<close>

theorem drawImage_placement_rounds:
  "js_value (page_width (hd (doc_pages wideDoc))) = Some 100000000000000000 \<and>
   img_width sigImage = 300 \<and>
   map op_x (drawn (calls (processPdf wide_env wide_state [a_stroke]))) =
     [Fin 3124999999999995 5] \<and>
   js_value (Fin 3124999999999995 5) = Some 99999999999999840 \<and>
   100000000000000000 - 0.5 * real (img_width sigImage) - 20 = (99999999999999830 :: real)"
  by (simp add: processPdf_def handler_defs compose_defs demo_defs wide_defs
      demo_numbers wide_numbers dy_def)

text \<open>No clamping: a raster wider than the page is placed at a negative \<open>x\<close>.\<close>

lemma drawOptions_negative_x:
  "js_value (op_x (drawOptions \<lparr>img_width = 400, img_height = 100\<rparr>
           \<lparr>dims_width = js_of_int 100, dims_height = js_of_int 100\<rparr>
           (scale \<lparr>img_width = 400, img_height = 100\<rparr> half))) = Some (- 120)"
  by code_simp

subsection \<open>Failures of the composition\<close>

text \<open>
  C3. When a statement of the \<^verbatim>\<open>try\<close> block throws, whichever it is, \<^verbatim>\<open>processPdf\<close>
  makes the single setter call that sets the error to the generic message: the state after
  the attempt is the state before it with that message, and \<^verbatim>\<open>signedPdfUrl\<close> is as it was,
  so the attempt produced no result.
\<close>

theorem composition_failure_generic_message:
  assumes "pdfFile s = Some pdf" and "\<not> isEmpty c" and "compose E pdf c = (l, Inl err)"
  shows "updates (processPdf E s c) =
       [SetErrorMsg ''An error occurred while creating the PDF.''] \<and>
     after_processPdf E s c = s\<lparr>errorMsg := ''An error occurred while creating the PDF.''\<rparr> \<and>
     signedPdfUrl (after_processPdf E s c) = signedPdfUrl s"
  unfolding after_processPdf_def processPdf_caught [OF assms]
  by (simp add: apply_setters_def)

theorem composition_failure_generic_message_witness:
  "pdfFile nopage_state = Some noPagePdf \<and> \<not> isEmpty [a_stroke] \<and>
   compose demo_env noPagePdf [a_stroke] =
     ([Load noPagePdf, ExportPng, EmbedPng sigPng, GetPages], Inl NoFirstPage) \<and>
   updates (processPdf demo_env nopage_state [a_stroke]) =
     [SetErrorMsg ''An error occurred while creating the PDF.''] \<and>
   errorMsg (after_processPdf demo_env nopage_state [a_stroke]) =
     ''An error occurred while creating the PDF.'' \<and>
   signedPdfUrl (after_processPdf demo_env nopage_state [a_stroke]) = None"
  using composition_failure_generic_message [of nopage_state noPagePdf "[a_stroke]" demo_env
      "[Load noPagePdf, ExportPng, EmbedPng sigPng, GetPages]" NoFirstPage]
  by (simp add: handler_defs compose_defs demo_defs demo_numbers)

subsection \<open>Signing with an empty drawing surface\<close>

text \<open>
  C4. With a document loaded and an empty drawing surface, \<^verbatim>\<open>processPdf\<close> calls none of
  the library operations of the composition and makes the single setter call that sets the
  error to "Please draw a signature first."; the rest of the state is as it was.
\<close>

theorem empty_signature_rejected:
  assumes "pdfFile s = Some pdf" and "isEmpty c"
  shows "processPdf E s c =
       \<lparr>calls = [], updates = [SetErrorMsg ''Please draw a signature first.'']\<rparr> \<and>
     after_processPdf E s c = s\<lparr>errorMsg := ''Please draw a signature first.''\<rparr>"
  using assms by (simp add: processPdf_def after_processPdf_def apply_setters_def)

theorem empty_signature_rejected_witness:
  "pdfFile signed_state = Some twoPagePdf \<and> isEmpty [] \<and>
   calls (processPdf demo_env signed_state []) = [] \<and>
   after_processPdf demo_env signed_state [] =
     signed_state\<lparr>errorMsg := ''Please draw a signature first.''\<rparr>"
  using empty_signature_rejected [of signed_state twoPagePdf "[]" demo_env]
  by (simp add: handler_defs demo_defs)

subsection \<open>Selecting a file\<close>

text \<open>
  C5. For a file whose type is exactly "application/pdf", \<^verbatim>\<open>handleFileChange\<close> starts the
  read and calls no setter; when the read completes, whatever the state then is, the stored
  bytes and the file name are those of the new file, the result is reset and the error is
  cleared.
\<close>

theorem valid_file_replaces_document:
  assumes "file_type f = ''application/pdf''"
  shows "handleFileChange (Some f) = (Some f, []) \<and>
     apply_setters s (onload f (file_bytes f)) =
       \<lparr>pdfFile = Some (file_bytes f), fileName = file_name f,
        signedPdfUrl = None, errorMsg = ''''\<rparr> \<and>
     app (step E (step E t (FileChange (Some f))) (ReaderLoad (length (readers t)))) =
       \<lparr>pdfFile = Some (file_bytes f), fileName = file_name f,
        signedPdfUrl = None, errorMsg = ''''\<rparr>"
  using assms by (simp add: handleFileChange_def onload_def apply_setters_def app_state_all_fields)

theorem valid_file_replaces_document_witness:
  "file_type empty_pdf = ''application/pdf'' \<and>
   signedPdfUrl signed_state = Some ''blob:signed'' \<and>
   handleFileChange (Some empty_pdf) = (Some empty_pdf, []) \<and>
   apply_setters signed_state (onload empty_pdf (file_bytes empty_pdf)) = nopage_state"
  using valid_file_replaces_document [of empty_pdf signed_state]
  by (simp add: handler_defs demo_defs)

text \<open>
  C6. For a file whose type is not "application/pdf", \<^verbatim>\<open>handleFileChange\<close> starts no read
  and makes the single setter call that sets the error to "Please upload a valid PDF file.":
  the stored bytes and the file name are as they were.
\<close>

theorem invalid_file_keeps_document:
  assumes "file_type f \<noteq> ''application/pdf''"
  shows "handleFileChange (Some f) = (None, [SetErrorMsg ''Please upload a valid PDF file.'']) \<and>
     pdfFile (apply_setters s (snd (handleFileChange (Some f)))) = pdfFile s \<and>
     fileName (apply_setters s (snd (handleFileChange (Some f)))) = fileName s \<and>
     errorMsg (apply_setters s (snd (handleFileChange (Some f)))) =
       ''Please upload a valid PDF file.''"
  using assms by (simp add: handleFileChange_def apply_setters_def)

theorem invalid_file_keeps_document_witness:
  "file_type photo_png \<noteq> ''application/pdf'' \<and>
   pdfFile (apply_setters loaded_state (snd (handleFileChange (Some photo_png)))) =
     Some twoPagePdf \<and>
   fileName (apply_setters loaded_state (snd (handleFileChange (Some photo_png)))) =
     ''contract.pdf'' \<and>
   errorMsg (apply_setters loaded_state (snd (handleFileChange (Some photo_png)))) =
     ''Please upload a valid PDF file.''"
  using invalid_file_keeps_document [of photo_png loaded_state]
  by (simp add: handler_defs demo_defs)

text \<open>
  C8. Selecting a file whose type is not "application/pdf" changes the error and nothing
  else: no read is started and \<^verbatim>\<open>signedPdfUrl\<close> is as it was. So when the download link was
  shown before the selection, the link and the error message are both shown after it.
\<close>

theorem invalid_file_keeps_download_link:
  assumes "file_type f \<noteq> ''application/pdf''"
  shows "step E t (FileChange (Some f)) =
       t\<lparr>app := (app t)\<lparr>errorMsg := ''Please upload a valid PDF file.''\<rparr>\<rparr> \<and>
     signedPdfUrl (app (step E t (FileChange (Some f)))) = signedPdfUrl (app t) \<and>
     (shows_download (app t) \<longrightarrow>
        shows_download (app (step E t (FileChange (Some f)))) \<and>
        shows_error (app (step E t (FileChange (Some f)))))"
  using assms
  by (simp add: handleFileChange_def apply_setters_def shows_download_def shows_error_def)

theorem invalid_file_keeps_download_link_witness:
  "file_type photo_png \<noteq> ''application/pdf'' \<and>
   app (run demo_env initial_sys sign_then_pick_photo) =
     signed_state\<lparr>errorMsg := ''Please upload a valid PDF file.''\<rparr> \<and>
   shows_download (app (run demo_env initial_sys sign_then_pick_photo)) \<and>
   shows_error (app (run demo_env initial_sys sign_then_pick_photo))"
  using invalid_file_keeps_download_link [of photo_png demo_env
      "run demo_env initial_sys
         [FileChange (Some contract_pdf), ReaderLoad 0, DrawStroke a_stroke, ClickSign]"]
  by (simp add: run_defs processPdf_def handler_defs compose_defs demo_defs demo_numbers
      shows_download_def shows_error_def)

text \<open>
  C9. When the change event carries no file, \<^verbatim>\<open>handleFileChange\<close> starts no read and makes
  the single setter call that sets the error to "Please upload a valid PDF file."; the stored
  bytes, the file name and the result are as they were.
\<close>

theorem no_file_selected_sets_error:
  "handleFileChange None = (None, [SetErrorMsg ''Please upload a valid PDF file.'']) \<and>
   apply_setters s (snd (handleFileChange None)) =
     s\<lparr>errorMsg := ''Please upload a valid PDF file.''\<rparr>"
  by (simp add: handleFileChange_def apply_setters_def)

subsection \<open>Clearing the drawing surface\<close>

text \<open>
  C10. After \<^verbatim>\<open>clearSignature\<close> the drawing surface is empty, and it is still empty after
  a second \<^verbatim>\<open>clearSignature\<close>.
\<close>

theorem clearSignature_twice_empty:
  "isEmpty (clearSignature c) \<and> isEmpty (clearSignature (clearSignature c))"
  by (simp add: clearSignature_def pad_clear_def isEmpty_def)

subsection \<open>The signed document\<close>

text \<open>
  C7, as the code has it. For a document that parses and has at least one page, and a
  drawing surface that is not empty, when the export of the raster, its decoding, the
  serialization and the creation of the object URL succeed, \<^verbatim>\<open>processPdf\<close> sets the result
  to the new URL and clears the error. The document it serializes is the parsed one with the
  image registered and one drawing operation added to the first page; the other pages are
  as parsed, so the number of pages is the same. Where the library parses what it
  serialized, the output parses to that document.
\<close>

theorem sign_draws_on_first_page_only:
  assumes "pdfFile s = Some pdf" and "\<not> isEmpty c"
    and "PDFDocument_load E pdf = Some d" and "getTrimmedCanvas_png E c = Some png"
    and "decodePng E png = Some img" and "doc_pages d = p # ps"
    and "opts = \<lparr>op_image = img,
           op_x = js_sub (js_sub (page_width p) (js_mul (js_of_int (int (img_width img))) half))
                    (js_of_int 20),
           op_y = js_of_int 20,
           op_width = js_mul (js_of_int (int (img_width img))) half,
           op_height = js_mul (js_of_int (int (img_height img))) half\<rparr>"
    and "d' = d\<lparr>doc_images := doc_images d @ [img], doc_pages := drawImage p opts # ps\<rparr>"
    and "pdfDoc_save E d' = Some out" and "URL_createObjectURL E out = Some url"
    and "\<And>x b. pdfDoc_save E x = Some b \<Longrightarrow> PDFDocument_load E b = Some x"
  shows "processPdf E s c =
       \<lparr>calls = [Load pdf, ExportPng, EmbedPng png, GetPages, DrawImage opts, Save d',
                 CreateObjectURL out],
        updates = [SetSignedPdfUrl (Some url), SetErrorMsg '''']\<rparr> \<and>
     doc_pages d' = drawImage p opts # ps \<and>
     length (doc_pages d') = length (doc_pages d) \<and>
     PDFDocument_load E out = Some d'"
proof -
  have "compose E pdf c =
     ([Load pdf, ExportPng, EmbedPng png, GetPages, DrawImage opts, Save d',
       CreateObjectURL out], Inr url)"
    by (rule compose_succeeds [OF assms(3-10)])
  then have "processPdf E s c =
       \<lparr>calls = [Load pdf, ExportPng, EmbedPng png, GetPages, DrawImage opts, Save d',
                 CreateObjectURL out],
        updates = [SetSignedPdfUrl (Some url), SetErrorMsg '''']\<rparr>"
    by (rule processPdf_returned [OF assms(1,2)])
  moreover have "doc_pages d' = drawImage p opts # ps"
    using assms(8) by simp
  moreover have "length (doc_pages d') = length (doc_pages d)"
    using assms(6,8) by simp
  moreover have "PDFDocument_load E out = Some d'"
    using assms(9) by (rule assms(11))
  ultimately show ?thesis by simp
qed

theorem sign_draws_on_first_page_only_witness:
  "pdfFile loaded_state = Some twoPagePdf \<and> \<not> isEmpty [a_stroke] \<and>
   PDFDocument_load demo_env twoPagePdf = Some twoPageDoc \<and>
   processPdf demo_env loaded_state [a_stroke] =
     \<lparr>calls = [Load twoPagePdf, ExportPng, EmbedPng sigPng, GetPages,
               DrawImage \<lparr>op_image = sigImage, op_x = js_of_int 442, op_y = js_of_int 20,
                          op_width = js_of_int 150, op_height = js_of_int 60\<rparr>,
               Save signedDoc, CreateObjectURL signedPdf],
      updates = [SetSignedPdfUrl (Some ''blob:signed''), SetErrorMsg '''']\<rparr> \<and>
   length (doc_pages signedDoc) = length (doc_pages twoPageDoc) \<and>
   tl (doc_pages signedDoc) = tl (doc_pages twoPageDoc) \<and>
   PDFDocument_load demo_env signedPdf = Some signedDoc"
proof -
  have roundtrip: "PDFDocument_load demo_env b = Some x"
    if "pdfDoc_save demo_env x = Some b" for x b
    using that by (simp add: demo_defs split: if_splits)
  show ?thesis
    using sign_draws_on_first_page_only [of loaded_state twoPagePdf "[a_stroke]" demo_env
        twoPageDoc sigPng sigImage
        "\<lparr>page_width = js_of_int 612, page_height = js_of_int 792, page_content = []\<rparr>"
        "[\<lparr>page_width = js_of_int 595, page_height = js_of_int 842, page_content = []\<rparr>]"
        "\<lparr>op_image = sigImage, op_x = js_of_int 442, op_y = js_of_int 20,
          op_width = js_of_int 150, op_height = js_of_int 60\<rparr>"
        signedDoc signedPdf "''blob:signed''", OF _ _ _ _ _ _ _ _ _ _ roundtrip]
    by (simp add: handler_defs drawImage_def demo_defs demo_numbers)
qed

text \<open>
  C7 as stated fails on a document that parses and has no page: there is no first page,
  the block throws where it asks for the size of the page, and the attempt ends with the
  generic error and no result.
\<close>

theorem sign_document_without_pages_fails:
  "PDFDocument_load demo_env noPagePdf = Some \<lparr>doc_pages = [], doc_images = []\<rparr> \<and>
   \<not> isEmpty [a_stroke] \<and>
   processPdf demo_env nopage_state [a_stroke] =
     \<lparr>calls = [Load noPagePdf, ExportPng, EmbedPng sigPng, GetPages,
               ConsoleError NoFirstPage],
      updates = [SetErrorMsg ''An error occurred while creating the PDF.'']\<rparr> \<and>
   signedPdfUrl (after_processPdf demo_env nopage_state [a_stroke]) = None"
  by (simp add: processPdf_def handler_defs compose_defs demo_defs demo_numbers)

end
